theory Spec2Isabelle
  imports Main
begin

section \<open>The VirtualBox builder: data model\<close>

text \<open>
  The builder of \<^verbatim>\<open>package virtualbox\<close> exists in two revisions in the repository:
  the later one (with the \<^verbatim>\<open>iso_md5\<close> and \<^verbatim>\<open>iso_url\<close> fields and the ISO steps) and
  the earlier \<^verbatim>\<open>builder/virtualbox/builder.go\<close> (three fields, four steps). Both are
  embedded; the later one keeps the plain names.

  Strings are byte lists. An \<^verbatim>\<open>error\<close> value of Go is represented by its message.
\<close>

record config =
  GuestOSType :: string
  ISOMD5 :: string
  ISOUrl :: string
  OutputDir :: string
  VMName :: string

text \<open>The \<^verbatim>\<open>config\<close> struct of the earlier revision.\<close>

record config_builder_go =
  GuestOSType0 :: string
  OutputDir0 :: string
  VMName0 :: string

text \<open>
  \<^verbatim>\<open>Driver\<close> is an interface; the only implementation the builder constructs is
  \<^verbatim>\<open>&VBox42Driver{vboxmanagePath}\<close>. A nil interface value is \<open>None\<close>.
\<close>

datatype Driver = VBox42Driver string

text \<open>
  \<^verbatim>\<open>Builder\<close>: the struct the methods mutate through their pointer receiver. The
  runner field holds a \<^verbatim>\<open>multistep.Runner\<close>; \<open>'r\<close> is the state of that object, which
  belongs to the multistep library.
\<close>

record ('cfg, 'r) Builder =
  config :: 'cfg
  driver :: "Driver option"
  runner :: "'r option"

text \<open>
  The value of \<^verbatim>\<open>net/url\<close>'s \<^verbatim>\<open>URL\<close> struct. \<^verbatim>\<open>Prepare\<close> reads and writes the
  \<^verbatim>\<open>Scheme\<close> field only; the other fields travel from \<^verbatim>\<open>url.Parse\<close> to
  \<^verbatim>\<open>url.String\<close>.
\<close>

record URL =
  Scheme :: string
  Opaque :: string
  User :: "(string \<times> string option) option"
  Host :: string
  Path :: string
  RawQuery :: string
  Fragment :: string

text \<open>
  What \<^verbatim>\<open>Prepare\<close> returns: the error of \<^verbatim>\<open>mapstructure.Decode\<close> as it is, or
  \<^verbatim>\<open>&packer.MultiError{errs}\<close> with the accumulated messages. \<open>None\<close> is \<^verbatim>\<open>nil\<close>.
\<close>

datatype error = DecodeError string | MultiError "string list"

text \<open>
  The effects on the outside world, in the order they happen: \<^verbatim>\<open>os.Stat\<close>,
  \<^verbatim>\<open>exec.LookPath\<close>, \<^verbatim>\<open>driver.Verify\<close> and the lines written with \<^verbatim>\<open>log\<close>.
\<close>

datatype event =
    EvStat string
  | EvLookPath string
  | EvVerify Driver
  | EvLog string

text \<open>
  The library and system calls of \<^verbatim>\<open>Prepare\<close> and \<^verbatim>\<open>newDriver\<close>, as parameters:
  none of them is code of the repository. \<^verbatim>\<open>mapstructure.Decode(raw, &b.config)\<close>
  writes into the existing config and returns an error or nil, so it maps the raw value
  and the current config to the config it leaves behind and the error; \<^verbatim>\<open>url.Parse\<close>
  returns an error (\<open>Inl\<close>) or a URL; \<^verbatim>\<open>os.Stat\<close> returns an error or nil (the file
  info is discarded by the caller); \<^verbatim>\<open>exec.LookPath\<close> returns an error or the path
  found; \<^verbatim>\<open>Verify\<close> of the driver returns an error or nil; \<^verbatim>\<open>strings.ToLower\<close>
  maps a string to its lower-cased copy.
\<close>

record ('raw, 'cfg) env =
  mapstructure_Decode :: "'raw \<Rightarrow> 'cfg \<Rightarrow> 'cfg \<times> string option"
  url_Parse :: "string \<Rightarrow> string + URL"
  url_String :: "URL \<Rightarrow> string"
  os_Stat :: "string \<Rightarrow> string option"
  exec_LookPath :: "string \<Rightarrow> string + string"
  driver_Verify :: "Driver \<Rightarrow> string option"
  strings_ToLower :: "string \<Rightarrow> string"

section \<open>Operations\<close>

text \<open>
  The loop over \<^verbatim>\<open>supportedSchemes\<close> that sets \<^verbatim>\<open>found\<close> and breaks at the first
  match.
\<close>

fun found_in :: "string \<Rightarrow> string list \<Rightarrow> bool" where
  "found_in scheme [] = False"
| "found_in scheme (supported # rest) =
     (if scheme = supported then True else found_in scheme rest)"

text \<open>
  \<^verbatim>\<open>newDriver\<close>: look \<^verbatim>\<open>VBoxManage\<close> up on the path, log where it is, build the
  driver and verify it. Returns the pair (driver, error) of the source and the effects.
\<close>

definition newDriver ::
  "('raw, 'cfg) env \<Rightarrow> (Driver option \<times> string option) \<times> event list" where
  "newDriver env =
     (case exec_LookPath env ''VBoxManage'' of
        Inl err \<Rightarrow> ((None, Some err), [EvLookPath ''VBoxManage''])
      | Inr vboxmanagePath \<Rightarrow>
          let evs = [EvLookPath ''VBoxManage'', EvLog (''VBoxManage path: '' @ vboxmanagePath)];
              drv = VBox42Driver vboxmanagePath
          in (case driver_Verify env drv of
                Some err \<Rightarrow> ((None, Some err), evs @ [EvVerify drv])
              | None \<Rightarrow> ((Some drv, None), evs @ [EvVerify drv])))"

text \<open>
  \<^verbatim>\<open>Prepare\<close> of the later revision is embedded block by block, in the order of the
  source; \<open>c\<close> is \<^verbatim>\<open>b.config\<close> and \<open>errs\<close> the slice of errors collected so far.

  First block: the three defaults.
\<close>

definition apply_defaults :: "config \<Rightarrow> config" where
  "apply_defaults c =
     (let c = (if GuestOSType c = [] then c\<lparr>GuestOSType := ''Other''\<rparr> else c);
          c = (if OutputDir c = [] then c\<lparr>OutputDir := ''virtualbox''\<rparr> else c)
      in (if VMName c = [] then c\<lparr>VMName := ''packer''\<rparr> else c))"

text \<open>Second block: \<^verbatim>\<open>iso_md5\<close> is required, and lower-cased when present.\<close>

definition check_iso_md5 ::
  "('raw, 'cfg) env \<Rightarrow> config \<Rightarrow> string list \<Rightarrow> config \<times> string list" where
  "check_iso_md5 env c errs =
     (if ISOMD5 c = []
      then (c, errs @ [''Due to large file sizes, an iso_md5 is required''])
      else (c\<lparr>ISOMD5 := strings_ToLower env (ISOMD5 c)\<rparr>, errs))"

text \<open>
  The branch of the third block taken when \<^verbatim>\<open>url.Parse\<close> succeeded: default the
  scheme, then either \<^verbatim>\<open>os.Stat(b.config.ISOUrl)\<close> (scheme \<^verbatim>\<open>file\<close>) or the search
  of the lower-cased scheme among the supported ones. Returns the URL as modified, the
  errors and the effects.
\<close>

definition check_scheme ::
  "('raw, 'cfg) env \<Rightarrow> string \<Rightarrow> URL \<Rightarrow> string list \<Rightarrow> URL \<times> string list \<times> event list" where
  "check_scheme env iso_url url errs =
     (let url = (if Scheme url = [] then url\<lparr>Scheme := ''file''\<rparr> else url)
      in if Scheme url = ''file''
         then
           (case os_Stat env iso_url of
              Some err \<Rightarrow>
                (url, errs @ [''iso_url points to bad file: '' @ err], [EvStat iso_url])
            | None \<Rightarrow> (url, errs, [EvStat iso_url]))
         else
           (let supportedSchemes = [''file'', ''http'', ''https''];
                scheme = strings_ToLower env (Scheme url)
            in if \<not> found_in scheme supportedSchemes
               then (url, errs @ [''Unsupported URL scheme in iso_url: '' @ scheme], [])
               else (url, errs, [])))"

text \<open>
  Third block: \<^verbatim>\<open>iso_url\<close> is required and parsed; when no error at all has been
  collected so far (\<^verbatim>\<open>len(errs) == 0\<close>), the URL is put back together and stored.
\<close>

definition check_iso_url ::
  "('raw, 'cfg) env \<Rightarrow> config \<Rightarrow> string list \<Rightarrow> config \<times> string list \<times> event list" where
  "check_iso_url env c errs =
     (if ISOUrl c = []
      then (c, errs @ [''An iso_url must be specified.''], [])
      else
        (case url_Parse env (ISOUrl c) of
           Inl err \<Rightarrow> (c, errs @ [''iso_url is not a valid URL: '' @ err], [])
         | Inr url \<Rightarrow>
             (case check_scheme env (ISOUrl c) url errs of
                (url, errs, evs) \<Rightarrow>
                  (if length errs = 0 then c\<lparr>ISOUrl := url_String env url\<rparr> else c,
                   errs, evs))))"

text \<open>
  \<^verbatim>\<open>Prepare\<close>: decode (returning the decoder's error at once), run the three blocks,
  create the driver whatever the errors so far, and return the aggregate error when
  \<^verbatim>\<open>len(errs) > 0\<close>. The result is the builder as the call leaves it, the returned
  error and the effects in order.
\<close>

definition Prepare ::
  "('raw, config) env \<Rightarrow> (config, 'r) Builder \<Rightarrow> 'raw \<Rightarrow>
     (config, 'r) Builder \<times> error option \<times> event list" where
  "Prepare env b raw =
     (case mapstructure_Decode env raw (config b) of
        (c, Some err) \<Rightarrow> (b\<lparr>config := c\<rparr>, Some (DecodeError err), [])
      | (c, None) \<Rightarrow>
          (case check_iso_md5 env (apply_defaults c) [] of
             (c, errs) \<Rightarrow>
               (case check_iso_url env c errs of
                  (c, errs, evs) \<Rightarrow>
                    (case newDriver env of
                       ((drv, err), devs) \<Rightarrow>
                         (let errs = (case err of
                                        Some e \<Rightarrow>
                                          errs @ [''Failed creating VirtualBox driver: '' @ e]
                                      | None \<Rightarrow> errs)
                          in (b\<lparr>config := c, driver := drv\<rparr>,
                              if length errs > 0 then Some (MultiError errs) else None,
                              evs @ devs))))))"

text \<open>
  \<^verbatim>\<open>Prepare\<close> of the earlier revision (\<^verbatim>\<open>builder.go\<close>): the same three defaults and the
  driver, with no ISO fields.
\<close>

definition apply_defaults_builder_go :: "config_builder_go \<Rightarrow> config_builder_go" where
  "apply_defaults_builder_go c =
     (let c = (if GuestOSType0 c = [] then c\<lparr>GuestOSType0 := ''Other''\<rparr> else c);
          c = (if OutputDir0 c = [] then c\<lparr>OutputDir0 := ''virtualbox''\<rparr> else c)
      in (if VMName0 c = [] then c\<lparr>VMName0 := ''packer''\<rparr> else c))"

definition Prepare_builder_go ::
  "('raw, config_builder_go) env \<Rightarrow> (config_builder_go, 'r) Builder \<Rightarrow> 'raw \<Rightarrow>
     (config_builder_go, 'r) Builder \<times> error option \<times> event list" where
  "Prepare_builder_go env b raw =
     (case mapstructure_Decode env raw (config b) of
        (c, Some err) \<Rightarrow> (b\<lparr>config := c\<rparr>, Some (DecodeError err), [])
      | (c, None) \<Rightarrow>
          (case newDriver env of
             ((drv, err), devs) \<Rightarrow>
               (let errs = (case err of
                              Some e \<Rightarrow> [] @ [''Failed creating VirtualBox driver: '' @ e]
                            | None \<Rightarrow> [])
                in (b\<lparr>config := apply_defaults_builder_go c, driver := drv\<rparr>,
                    if length errs > 0 then Some (MultiError errs) else None,
                    devs))))"

subsection \<open>Run and Cancel\<close>

text \<open>The step types the two revisions of \<^verbatim>\<open>Run\<close> instantiate with \<^verbatim>\<open>new\<close>.\<close>

datatype step =
    stepDownloadISO
  | stepPrepareOutputDir
  | stepSuppressMessages
  | stepCreateVM
  | stepCreateDisk
  | stepAttachISO

text \<open>
  The values of the state bag \<^verbatim>\<open>map[string]interface{}\<close>. The cache, the hook and the
  UI are interface values of the host, kept abstract (\<open>'c\<close>, \<open>'h\<close>, \<open>'u\<close>). The bag holds
  \<^verbatim>\<open>&b.config\<close>, a pointer: the entry carries the config at the start of the run, and
  the runner hands back the config as the steps leave it.
\<close>

datatype ('cfg, 'u, 'h, 'c) state_value =
    SCache 'c
  | SConfig 'cfg
  | SDriver "Driver option"
  | SHook 'h
  | SUi 'u

text \<open>
  The multistep library, as parameters: the composite literal
  \<^verbatim>\<open>&multistep.BasicRunner{Steps: steps}\<close>, the runner's \<^verbatim>\<open>Run(state)\<close> (which returns
  nothing; it leaves the runner object and the pointed-to config in some state) and the
  runner's \<^verbatim>\<open>Cancel()\<close>.
\<close>

record ('cfg, 'r, 'u, 'h, 'c) multistep =
  new_BasicRunner :: "step list \<Rightarrow> 'r"
  runner_Run :: "'r \<Rightarrow> (string \<rightharpoonup> ('cfg, 'u, 'h, 'c) state_value) \<Rightarrow> 'r \<times> 'cfg"
  runner_Cancel :: "'r \<Rightarrow> 'r"

text \<open>
  Modelled from the spec: \<^verbatim>\<open>packer.Artifact\<close>, the result type of \<^verbatim>\<open>Run\<close>, is an
  interface declared outside the source files; the spec describes the artifact as an
  (output directory, VM name) pair. A nil artifact is \<open>None\<close>.
\<close>

record Artifact =
  artifact_dir :: string
  artifact_vm_name :: string

text \<open>\<^verbatim>\<open>Run\<close> of the later revision: six steps.\<close>

definition Run ::
  "(config, 'r, 'u, 'h, 'c) multistep \<Rightarrow> (config, 'r) Builder \<Rightarrow> 'u \<Rightarrow> 'h \<Rightarrow> 'c \<Rightarrow>
     (config, 'r) Builder \<times> Artifact option" where
  "Run ms b ui hook cache =
     (let steps = [stepDownloadISO, stepPrepareOutputDir, stepSuppressMessages,
                   stepCreateVM, stepCreateDisk, stepAttachISO];
          state = Map.empty(''cache'' \<mapsto> SCache cache, ''config'' \<mapsto> SConfig (config b),
                    ''driver'' \<mapsto> SDriver (driver b), ''hook'' \<mapsto> SHook hook,
                    ''ui'' \<mapsto> SUi ui)
      in (case runner_Run ms (new_BasicRunner ms steps) state of
            (r, c) \<Rightarrow> (b\<lparr>config := c, runner := Some r\<rparr>, None)))"

text \<open>\<^verbatim>\<open>Run\<close> of the earlier revision: four steps.\<close>

definition Run_builder_go ::
  "(config_builder_go, 'r, 'u, 'h, 'c) multistep \<Rightarrow> (config_builder_go, 'r) Builder \<Rightarrow>
     'u \<Rightarrow> 'h \<Rightarrow> 'c \<Rightarrow> (config_builder_go, 'r) Builder \<times> Artifact option" where
  "Run_builder_go ms b ui hook cache =
     (let steps = [stepPrepareOutputDir, stepSuppressMessages, stepCreateVM, stepCreateDisk];
          state = Map.empty(''cache'' \<mapsto> SCache cache, ''config'' \<mapsto> SConfig (config b),
                    ''driver'' \<mapsto> SDriver (driver b), ''hook'' \<mapsto> SHook hook,
                    ''ui'' \<mapsto> SUi ui)
      in (case runner_Run ms (new_BasicRunner ms steps) state of
            (r, c) \<Rightarrow> (b\<lparr>config := c, runner := Some r\<rparr>, None)))"

text \<open>
  \<^verbatim>\<open>Cancel\<close>, the same in both revisions: with no runner (\<^verbatim>\<open>b.runner == nil\<close>) nothing
  happens; otherwise one line is logged and the runner's own \<^verbatim>\<open>Cancel\<close> is called.
  The method call on a nil interface, which would panic, is never reached.
\<close>

definition Cancel ::
  "('cfg, 'r, 'u, 'h, 'c) multistep \<Rightarrow> ('cfg, 'r) Builder \<Rightarrow> ('cfg, 'r) Builder \<times> event list" where
  "Cancel ms b =
     (case runner b of
        None \<Rightarrow> (b, [])
      | Some r \<Rightarrow>
          (b\<lparr>runner := Some (runner_Cancel ms r)\<rparr>, [EvLog ''Cancelling the step runner...'']))"

subsection \<open>The outcome of the validation, named\<close>

text \<open>
  The config, the errors and the effects after the three validation blocks of
  \<^verbatim>\<open>Prepare\<close>, and the error line that a failing \<^verbatim>\<open>newDriver\<close> adds.
\<close>

definition validated ::
  "('raw, 'cfg) env \<Rightarrow> config \<Rightarrow> config \<times> string list \<times> event list" where
  "validated env c =
     check_iso_url env (fst (check_iso_md5 env (apply_defaults c) []))
       (snd (check_iso_md5 env (apply_defaults c) []))"

definition driver_errs :: "('raw, 'cfg) env \<Rightarrow> string list" where
  "driver_errs env =
     (case snd (fst (newDriver env)) of
        Some e \<Rightarrow> [''Failed creating VirtualBox driver: '' @ e]
      | None \<Rightarrow> [])"

section \<open>A concrete environment\<close>

text \<open>
  Stand-ins for the libraries and the host, on which the model is run at concrete
  inputs. A raw spec is a list of (key, string) pairs; decoding overwrites the fields
  whose keys are present and keeps the others, and does not fail.
\<close>

type_synonym raw_spec = "(string \<times> string) list"

definition field_or :: "raw_spec \<Rightarrow> string \<Rightarrow> string \<Rightarrow> string" where
  "field_or raw key old = (case map_of raw key of Some v \<Rightarrow> v | None \<Rightarrow> old)"

definition decode_strings :: "raw_spec \<Rightarrow> config \<Rightarrow> config \<times> string option" where
  "decode_strings raw c =
     (\<lparr>GuestOSType = field_or raw ''guest_os_type'' (GuestOSType c),
       ISOMD5 = field_or raw ''iso_md5'' (ISOMD5 c),
       ISOUrl = field_or raw ''iso_url'' (ISOUrl c),
       OutputDir = field_or raw ''output_directory'' (OutputDir c),
       VMName = field_or raw ''vm_name'' (VMName c)\<rparr>, None)"

definition url_of :: "string \<Rightarrow> string \<Rightarrow> string \<Rightarrow> URL" where
  "url_of scheme host path =
     \<lparr>Scheme = scheme, Opaque = [], User = None, Host = host, Path = path,
      RawQuery = [], Fragment = []\<rparr>"

text \<open>
  \<^verbatim>\<open>url.Parse\<close> at the URLs used below, as a table. The parser returns the scheme
  in lower case: \<open>FILE:\<close> is parsed as scheme \<open>file\<close>.
\<close>

definition parse_table :: "string \<Rightarrow> string + URL" where
  "parse_table s =
     (case map_of
        [(''/tmp/foo.iso'', url_of [] [] ''/tmp/foo.iso''),
         (''/tmp/missing.iso'', url_of [] [] ''/tmp/missing.iso''),
         (''file:///tmp/foo.iso'', url_of ''file'' [] ''/tmp/foo.iso''),
         (''FILE:///tmp/missing.iso'', url_of ''file'' [] ''/tmp/missing.iso''),
         (''https://example.com/os.iso'', url_of ''https'' ''example.com'' ''/os.iso'')] s of
        Some u \<Rightarrow> Inr u
      | None \<Rightarrow> Inl ''parse error'')"

text \<open>
  \<^verbatim>\<open>url.String\<close> on URLs with a scheme, a host and a path only.
\<close>

definition string_of_url :: "URL \<Rightarrow> string" where
  "string_of_url u =
     (if Scheme u = [] then [] else Scheme u @ '':'') @
     (if Scheme u \<noteq> [] \<or> Host u \<noteq> [] then ''//'' @ Host u else []) @
     Path u"

text \<open>
  \<^verbatim>\<open>strings.ToLower\<close> at ASCII strings, the only ones it is applied to below: the
  bytes \<open>A\<close> to \<open>Z\<close> become \<open>a\<close> to \<open>z\<close>.
\<close>

definition lower_byte :: "char \<Rightarrow> char" where
  "lower_byte c =
     (case map_of (zip ''ABCDEFGHIJKLMNOPQRSTUVWXYZ'' ''abcdefghijklmnopqrstuvwxyz'') c of
        Some l \<Rightarrow> l
      | None \<Rightarrow> c)"

definition ascii_lower :: "string \<Rightarrow> string" where
  "ascii_lower s = map lower_byte s"

text \<open>A file system in which exactly the listed paths exist.\<close>

definition stat_in :: "string list \<Rightarrow> string \<Rightarrow> string option" where
  "stat_in files p =
     (if p \<in> set files then None else Some (''stat '' @ p @ '': no such file or directory''))"

definition look_path :: "string \<Rightarrow> string + string" where
  "look_path file =
     (if file = ''VBoxManage'' then Inr ''/usr/bin/VBoxManage''
      else Inl ''executable file not found'')"

definition test_env :: "(raw_spec, config) env" where
  "test_env =
     \<lparr>mapstructure_Decode = decode_strings,
      url_Parse = parse_table,
      url_String = string_of_url,
      os_Stat = stat_in [''/tmp/foo.iso''],
      exec_LookPath = look_path,
      driver_Verify = (\<lambda>d. None),
      strings_ToLower = ascii_lower\<rparr>"

text \<open>The same environment for the earlier revision, with its three fields.\<close>

definition decode_strings_builder_go ::
  "raw_spec \<Rightarrow> config_builder_go \<Rightarrow> config_builder_go \<times> string option" where
  "decode_strings_builder_go raw c =
     (\<lparr>GuestOSType0 = field_or raw ''guest_os_type'' (GuestOSType0 c),
       OutputDir0 = field_or raw ''output_directory'' (OutputDir0 c),
       VMName0 = field_or raw ''vm_name'' (VMName0 c)\<rparr>, None)"

definition test_env_builder_go :: "(raw_spec, config_builder_go) env" where
  "test_env_builder_go =
     \<lparr>mapstructure_Decode = decode_strings_builder_go,
      url_Parse = parse_table,
      url_String = string_of_url,
      os_Stat = stat_in [''/tmp/foo.iso''],
      exec_LookPath = look_path,
      driver_Verify = (\<lambda>d. None),
      strings_ToLower = ascii_lower\<rparr>"

definition new_builder_builder_go :: "(config_builder_go, step list \<times> bool) Builder" where
  "new_builder_builder_go =
     \<lparr>config = \<lparr>GuestOSType0 = [], OutputDir0 = [], VMName0 = []\<rparr>,
      driver = None, runner = None\<rparr>"

definition zero_config :: config where
  "zero_config = \<lparr>GuestOSType = [], ISOMD5 = [], ISOUrl = [], OutputDir = [], VMName = []\<rparr>"

text \<open>
  A runner that records its steps and whether it was cancelled, and steps that leave the
  config as it is.
\<close>

type_synonym test_runner = "step list \<times> bool"

definition new_builder :: "(config, test_runner) Builder" where
  "new_builder = \<lparr>config = zero_config, driver = None, runner = None\<rparr>"

definition test_multistep :: "(config, test_runner, unit, unit, unit) multistep" where
  "test_multistep =
     \<lparr>new_BasicRunner = (\<lambda>steps. (steps, False)),
      runner_Run = (\<lambda>r state. (r, case state ''config'' of
                                      Some (SConfig c) \<Rightarrow> c
                                    | _ \<Rightarrow> zero_config)),
      runner_Cancel = (\<lambda>r. (fst r, True))\<rparr>"

text \<open>Raw specs used below.\<close>

definition ok_spec :: raw_spec where
  "ok_spec = [(''iso_url'', ''/tmp/foo.iso''), (''iso_md5'', ''ABCDEF0123'')]"

definition file_url_spec :: raw_spec where
  "file_url_spec = [(''iso_url'', ''file:///tmp/foo.iso''), (''iso_md5'', ''ABCDEF0123'')]"

definition missing_spec :: raw_spec where
  "missing_spec =
     [(''guest_os_type'', ''Linux''), (''iso_md5'', ''abc''), (''iso_url'', ''/tmp/missing.iso''),
      (''output_directory'', ''out''), (''vm_name'', ''vm'')]"

definition upper_scheme_spec :: raw_spec where
  "upper_scheme_spec = [(''iso_url'', ''FILE:///tmp/missing.iso''), (''iso_md5'', ''ABCDEF0123'')]"

definition https_spec :: raw_spec where
  "https_spec = [(''iso_url'', ''https://example.com/os.iso''), (''iso_md5'', ''ABCDEF0123'')]"

definition named_spec :: raw_spec where
  "named_spec =
     [(''guest_os_type'', ''Linux''), (''output_directory'', ''out''), (''vm_name'', ''vm'')]"

section \<open>Auxiliary facts\<close>

lemmas run_defs =
  Prepare_def apply_defaults_def check_iso_md5_def check_iso_url_def check_scheme_def
  newDriver_def test_env_def new_builder_def zero_config_def decode_strings_def field_or_def
  parse_table_def url_of_def string_of_url_def stat_in_def look_path_def ascii_lower_def
  lower_byte_def Let_def

lemma Prepare_decoded:
  assumes "mapstructure_Decode env raw (config b) = (c, None)"
  shows "Prepare env b raw =
    (b\<lparr>config := fst (validated env c), driver := fst (fst (newDriver env))\<rparr>,
     (if fst (snd (validated env c)) @ driver_errs env = [] then None
      else Some (MultiError (fst (snd (validated env c)) @ driver_errs env))),
     snd (snd (validated env c)) @ snd (newDriver env))"
  using assms
  by (simp add: Prepare_def validated_def driver_errs_def Let_def
           split: prod.splits option.splits)

lemma apply_defaults_fields:
  "GuestOSType (apply_defaults c) = (if GuestOSType c = [] then ''Other'' else GuestOSType c)"
  "OutputDir (apply_defaults c) = (if OutputDir c = [] then ''virtualbox'' else OutputDir c)"
  "VMName (apply_defaults c) = (if VMName c = [] then ''packer'' else VMName c)"
  "ISOMD5 (apply_defaults c) = ISOMD5 c"
  "ISOUrl (apply_defaults c) = ISOUrl c"
  by (simp_all add: apply_defaults_def Let_def)

lemma check_iso_md5_fields:
  "GuestOSType (fst (check_iso_md5 env c errs)) = GuestOSType c"
  "OutputDir (fst (check_iso_md5 env c errs)) = OutputDir c"
  "VMName (fst (check_iso_md5 env c errs)) = VMName c"
  "ISOUrl (fst (check_iso_md5 env c errs)) = ISOUrl c"
  "ISOMD5 (fst (check_iso_md5 env c errs)) =
     (if ISOMD5 c = [] then [] else strings_ToLower env (ISOMD5 c))"
  by (simp_all add: check_iso_md5_def)

lemma check_iso_md5_errs:
  "snd (check_iso_md5 env c errs) =
     (if ISOMD5 c = [] then errs @ [''Due to large file sizes, an iso_md5 is required'']
      else errs)"
  by (simp add: check_iso_md5_def)

lemma check_iso_url_fields:
  "GuestOSType (fst (check_iso_url env c errs)) = GuestOSType c"
  "OutputDir (fst (check_iso_url env c errs)) = OutputDir c"
  "VMName (fst (check_iso_url env c errs)) = VMName c"
  "ISOMD5 (fst (check_iso_url env c errs)) = ISOMD5 c"
  by (simp_all add: check_iso_url_def split: sum.splits prod.splits)

lemma validated_fields:
  "GuestOSType (fst (validated env c)) = (if GuestOSType c = [] then ''Other'' else GuestOSType c)"
  "OutputDir (fst (validated env c)) = (if OutputDir c = [] then ''virtualbox'' else OutputDir c)"
  "VMName (fst (validated env c)) = (if VMName c = [] then ''packer'' else VMName c)"
  "ISOMD5 (fst (validated env c)) =
     (if ISOMD5 c = [] then [] else strings_ToLower env (ISOMD5 c))"
  unfolding validated_def
  by (simp_all only: check_iso_url_fields check_iso_md5_fields apply_defaults_fields)

text \<open>The errors and effects of the URL block when the URL parses.\<close>

lemma validated_parsed:
  assumes "ISOUrl c \<noteq> []" and "url_Parse env (ISOUrl c) = Inr url"
  shows "snd (validated env c) =
           snd (check_scheme env (ISOUrl c) url (snd (check_iso_md5 env (apply_defaults c) [])))"
  using assms
  by (simp add: validated_def check_iso_url_def check_iso_md5_fields apply_defaults_fields
           split: prod.splits)



lemma newDriver_no_stat: "EvStat p \<notin> set (snd (newDriver env))"
  by (simp add: newDriver_def Let_def split: sum.splits option.splits)

lemma driver_errs_ok:
  "snd (fst (newDriver env)) = None \<Longrightarrow> driver_errs env = []"
  by (simp add: driver_errs_def)

text \<open>The model run on the raw specs above.\<close>

lemma Prepare_ok_spec:
  "Prepare test_env new_builder ok_spec =
     (\<lparr>config = \<lparr>GuestOSType = ''Other'', ISOMD5 = ''abcdef0123'',
                  ISOUrl = ''file:///tmp/foo.iso'', OutputDir = ''virtualbox'',
                  VMName = ''packer''\<rparr>,
       driver = Some (VBox42Driver ''/usr/bin/VBoxManage''), runner = None\<rparr>,
      None,
      [EvStat ''/tmp/foo.iso'', EvLookPath ''VBoxManage'',
       EvLog ''VBoxManage path: /usr/bin/VBoxManage'',
       EvVerify (VBox42Driver ''/usr/bin/VBoxManage'')])"
  by (simp add: run_defs ok_spec_def)

lemma Prepare_missing_spec:
  "Prepare test_env new_builder missing_spec =
     (\<lparr>config = \<lparr>GuestOSType = ''Linux'', ISOMD5 = ''abc'',
                  ISOUrl = ''/tmp/missing.iso'', OutputDir = ''out'', VMName = ''vm''\<rparr>,
       driver = Some (VBox42Driver ''/usr/bin/VBoxManage''), runner = None\<rparr>,
      Some (MultiError
        [''iso_url points to bad file: stat /tmp/missing.iso: no such file or directory'']),
      [EvStat ''/tmp/missing.iso'', EvLookPath ''VBoxManage'',
       EvLog ''VBoxManage path: /usr/bin/VBoxManage'',
       EvVerify (VBox42Driver ''/usr/bin/VBoxManage'')])"
  by (simp add: run_defs missing_spec_def)

lemma Prepare_upper_scheme_spec:
  "Prepare test_env new_builder upper_scheme_spec =
     (\<lparr>config = \<lparr>GuestOSType = ''Other'', ISOMD5 = ''abcdef0123'',
                  ISOUrl = ''FILE:///tmp/missing.iso'', OutputDir = ''virtualbox'',
                  VMName = ''packer''\<rparr>,
       driver = Some (VBox42Driver ''/usr/bin/VBoxManage''), runner = None\<rparr>,
      Some (MultiError
        [''iso_url points to bad file: stat FILE:///tmp/missing.iso: no such file or directory'']),
      [EvStat ''FILE:///tmp/missing.iso'', EvLookPath ''VBoxManage'',
       EvLog ''VBoxManage path: /usr/bin/VBoxManage'',
       EvVerify (VBox42Driver ''/usr/bin/VBoxManage'')])"
  by (simp add: run_defs upper_scheme_spec_def)

lemma Prepare_https_spec:
  "Prepare test_env new_builder https_spec =
     (\<lparr>config = \<lparr>GuestOSType = ''Other'', ISOMD5 = ''abcdef0123'',
                  ISOUrl = ''https://example.com/os.iso'', OutputDir = ''virtualbox'',
                  VMName = ''packer''\<rparr>,
       driver = Some (VBox42Driver ''/usr/bin/VBoxManage''), runner = None\<rparr>,
      None,
      [EvLookPath ''VBoxManage'',
       EvLog ''VBoxManage path: /usr/bin/VBoxManage'',
       EvVerify (VBox42Driver ''/usr/bin/VBoxManage'')])"
  by (simp add: run_defs https_spec_def)

lemma decode_ok_spec:
  "mapstructure_Decode test_env ok_spec (config new_builder) =
     (\<lparr>GuestOSType = [], ISOMD5 = ''ABCDEF0123'', ISOUrl = ''/tmp/foo.iso'',
       OutputDir = [], VMName = []\<rparr>, None)"
  by (simp add: test_env_def decode_strings_def field_or_def new_builder_def zero_config_def
        ok_spec_def)

lemma decode_missing_spec:
  "mapstructure_Decode test_env missing_spec (config new_builder) =
     (\<lparr>GuestOSType = ''Linux'', ISOMD5 = ''abc'', ISOUrl = ''/tmp/missing.iso'',
       OutputDir = ''out'', VMName = ''vm''\<rparr>, None)"
  by (simp add: test_env_def decode_strings_def field_or_def new_builder_def zero_config_def
        missing_spec_def)

lemma decode_upper_scheme_spec:
  "mapstructure_Decode test_env upper_scheme_spec (config new_builder) =
     (\<lparr>GuestOSType = [], ISOMD5 = ''ABCDEF0123'', ISOUrl = ''FILE:///tmp/missing.iso'',
       OutputDir = [], VMName = []\<rparr>, None)"
  by (simp add: test_env_def decode_strings_def field_or_def new_builder_def zero_config_def
        upper_scheme_spec_def)

lemma decode_https_spec:
  "mapstructure_Decode test_env https_spec (config new_builder) =
     (\<lparr>GuestOSType = [], ISOMD5 = ''ABCDEF0123'', ISOUrl = ''https://example.com/os.iso'',
       OutputDir = [], VMName = []\<rparr>, None)"
  by (simp add: test_env_def decode_strings_def field_or_def new_builder_def zero_config_def
        https_spec_def)

lemma decode_empty_spec:
  "mapstructure_Decode test_env [] (config new_builder) = (zero_config, None)"
  by (simp add: test_env_def new_builder_def zero_config_def decode_strings_def field_or_def)

lemma decode_empty_spec_builder_go:
  "mapstructure_Decode test_env_builder_go [] (config new_builder_builder_go) =
     (\<lparr>GuestOSType0 = [], OutputDir0 = [], VMName0 = []\<rparr>, None)"
  by (simp add: test_env_builder_go_def new_builder_builder_go_def
        decode_strings_builder_go_def field_or_def)

lemma decode_named_spec_builder_go:
  "mapstructure_Decode test_env_builder_go named_spec (config new_builder_builder_go) =
     (\<lparr>GuestOSType0 = ''Linux'', OutputDir0 = ''out'', VMName0 = ''vm''\<rparr>, None)"
  by (simp add: test_env_builder_go_def new_builder_builder_go_def
        decode_strings_builder_go_def field_or_def named_spec_def)

lemma ascii_lower_values:
  "strings_ToLower test_env ''ABCDEF0123'' = ''abcdef0123''"
  "strings_ToLower test_env ''https'' = ''https''"
  "strings_ToLower test_env ''file'' = ''file''"
  by (simp_all add: test_env_def ascii_lower_def lower_byte_def)

text \<open>
  \<^verbatim>\<open>Cancel\<close> in the sequential model: nothing happens without a runner, and the config
  and the driver are never written. What repeated calls do to an installed runner is
  the runner's own \<^verbatim>\<open>Cancel\<close>, once per call.
\<close>

lemma Cancel_without_runner: "runner b = None \<Longrightarrow> Cancel ms b = (b, [])"
  by (simp add: Cancel_def)

lemma Cancel_keeps_fields:
  "config (fst (Cancel ms b)) = config b"
  "driver (fst (Cancel ms b)) = driver b"
  by (simp_all add: Cancel_def split: option.splits)

lemma Cancel_with_runner:
  "runner b = Some r \<Longrightarrow>
     Cancel ms b =
       (b\<lparr>runner := Some (runner_Cancel ms r)\<rparr>, [EvLog ''Cancelling the step runner...''])"
  by (simp add: Cancel_def)

section \<open>Claims\<close>

text \<open>
  C1, as amended. The claim says a successful run returns an artifact holding the output
  directory and the VM name. Both revisions of \<^verbatim>\<open>Run\<close> end in \<^verbatim>\<open>return nil\<close>: the
  artifact is nil after every run. What \<^verbatim>\<open>Run\<close> does is install in the builder a
  \<^verbatim>\<open>BasicRunner\<close> over the fixed step list (six steps in the later revision, four in
  the earlier), run on the state bag that holds the cache, the config, the driver, the
  hook and the UI.
\<close>

theorem Run_returns_nil:
  "snd (Run ms b ui hook cache) = None \<and>
   runner (fst (Run ms b ui hook cache)) =
     Some (fst (runner_Run ms
       (new_BasicRunner ms [stepDownloadISO, stepPrepareOutputDir, stepSuppressMessages,
                            stepCreateVM, stepCreateDisk, stepAttachISO])
       (Map.empty(''cache'' \<mapsto> SCache cache, ''config'' \<mapsto> SConfig (config b),
          ''driver'' \<mapsto> SDriver (driver b), ''hook'' \<mapsto> SHook hook, ''ui'' \<mapsto> SUi ui)))) \<and>
   snd (Run_builder_go ms0 b0 ui0 hook0 cache0) = None \<and>
   runner (fst (Run_builder_go ms0 b0 ui0 hook0 cache0)) =
     Some (fst (runner_Run ms0
       (new_BasicRunner ms0 [stepPrepareOutputDir, stepSuppressMessages, stepCreateVM,
                             stepCreateDisk])
       (Map.empty(''cache'' \<mapsto> SCache cache0, ''config'' \<mapsto> SConfig (config b0),
          ''driver'' \<mapsto> SDriver (driver b0), ''hook'' \<mapsto> SHook hook0, ''ui'' \<mapsto> SUi ui0))))"
  by (simp add: Run_def Run_builder_go_def Let_def split_def)

text \<open>
  C1 fails as stated: \<^verbatim>\<open>Prepare\<close> accepts the spec, the runner is given the six steps, and
  \<^verbatim>\<open>Run\<close> returns nil, not an artifact for \<open>virtualbox\<close> and \<open>packer\<close>.
\<close>

theorem Run_artifact_counterexample:
  "fst (snd (Prepare test_env new_builder ok_spec)) = None \<and>
   snd (Run test_multistep (fst (Prepare test_env new_builder ok_spec)) () () ()) = None"
  by (simp add: Run_def split: prod.splits) (simp add: Prepare_ok_spec)

text \<open>
  C2. When the decoded spec has neither \<^verbatim>\<open>iso_md5\<close> nor \<^verbatim>\<open>iso_url\<close>, \<^verbatim>\<open>Prepare\<close>
  returns one aggregate error whose list holds both messages, the checksum's first:
  validation goes on after the first defect.
\<close>

theorem Prepare_reports_both_missing:
  assumes "mapstructure_Decode env raw (config b) = (c, None)"
    and "ISOMD5 c = []" and "ISOUrl c = []"
  shows "\<exists>rest. fst (snd (Prepare env b raw)) =
           Some (MultiError (''Due to large file sizes, an iso_md5 is required'' #
                             ''An iso_url must be specified.'' # rest))"
  using assms(2,3)
  by (simp add: Prepare_decoded [OF assms(1)] validated_def check_iso_md5_def
        check_iso_url_def apply_defaults_fields)

theorem Prepare_reports_both_missing_witness:
  "mapstructure_Decode test_env [] (config new_builder) = (zero_config, None) \<and>
   ISOMD5 zero_config = [] \<and> ISOUrl zero_config = [] \<and>
   (\<exists>rest. fst (snd (Prepare test_env new_builder [])) =
           Some (MultiError (''Due to large file sizes, an iso_md5 is required'' #
                             ''An iso_url must be specified.'' # rest)))"
proof -
  have m: "ISOMD5 zero_config = []" and u: "ISOUrl zero_config = []"
    by (simp_all add: zero_config_def)
  from Prepare_reports_both_missing [OF decode_empty_spec m u] decode_empty_spec m u
  show ?thesis by simp
qed

text \<open>
  C3, evaluated where it fails. The claim says that \<^verbatim>\<open>Prepare\<close> run again on the
  canonical URL it stored succeeds with the same string. The file \<open>/tmp/foo.iso\<close>
  exists; \<^verbatim>\<open>Prepare\<close> accepts the bare path and stores \<open>file:///tmp/foo.iso\<close>; run
  again on that string it passes the whole string to \<^verbatim>\<open>os.Stat\<close> and reports a bad
  file.
\<close>

theorem Prepare_again_on_canonical_url:
  "fst (snd (Prepare test_env new_builder ok_spec)) = None \<and>
   ISOUrl (config (fst (Prepare test_env new_builder ok_spec))) = ''file:///tmp/foo.iso'' \<and>
   fst (snd (Prepare test_env (fst (Prepare test_env new_builder ok_spec))
               [(''iso_url'', ''file:///tmp/foo.iso'')])) =
     Some (MultiError
       [''iso_url points to bad file: stat file:///tmp/foo.iso: no such file or directory''])"
  unfolding Prepare_ok_spec by (simp add: run_defs)

text \<open>
  C4, evaluated where it fails. The claim says that for scheme \<open>file\<close> the referenced
  path is checked, and that no error is recorded when the file exists. The URL
  \<open>file:///tmp/foo.iso\<close> refers to the path \<open>/tmp/foo.iso\<close>, which exists, but
  \<^verbatim>\<open>os.Stat\<close> is given \<^verbatim>\<open>b.config.ISOUrl\<close>, the URL as written, and the error is
  recorded.
\<close>

theorem Prepare_file_url_existing_file:
  "url_Parse test_env ''file:///tmp/foo.iso'' = Inr (url_of ''file'' [] ''/tmp/foo.iso'') \<and>
   os_Stat test_env ''/tmp/foo.iso'' = None \<and>
   fst (snd (Prepare test_env new_builder file_url_spec)) =
     Some (MultiError
       [''iso_url points to bad file: stat file:///tmp/foo.iso: no such file or directory'']) \<and>
   hd (snd (snd (Prepare test_env new_builder file_url_spec))) = EvStat ''file:///tmp/foo.iso''"
  by (simp add: run_defs file_url_spec_def)




text \<open>
  C6. With an empty decoded \<^verbatim>\<open>iso_md5\<close>, \<^verbatim>\<open>Prepare\<close> returns an aggregate error
  that starts with the checksum message; with a non-empty one, the stored checksum is
  \<^verbatim>\<open>strings.ToLower\<close> of the decoded value.
\<close>

theorem Prepare_iso_md5_required:
  assumes "mapstructure_Decode env raw (config b) = (c, None)"
  shows "(ISOMD5 c = [] \<longrightarrow>
            (\<exists>rest. fst (snd (Prepare env b raw)) =
               Some (MultiError (''Due to large file sizes, an iso_md5 is required'' # rest)))) \<and>
         (ISOMD5 c \<noteq> [] \<longrightarrow>
            ISOMD5 (config (fst (Prepare env b raw))) = strings_ToLower env (ISOMD5 c))"
proof -
  have "\<exists>rest. fst (snd (validated env c)) =
          ''Due to large file sizes, an iso_md5 is required'' # rest" if "ISOMD5 c = []"
    using that
    by (simp add: validated_def check_iso_md5_def check_iso_url_def check_scheme_def
          apply_defaults_fields Let_def split: sum.splits option.splits)
  then show ?thesis
    by (auto simp add: Prepare_decoded [OF assms] validated_fields)
qed

theorem Prepare_iso_md5_required_witness:
  "mapstructure_Decode test_env [] (config new_builder) = (zero_config, None) \<and>
   ISOMD5 zero_config = [] \<and>
   (\<exists>rest. fst (snd (Prepare test_env new_builder [])) =
      Some (MultiError (''Due to large file sizes, an iso_md5 is required'' # rest))) \<and>
   mapstructure_Decode test_env ok_spec (config new_builder) =
     (\<lparr>GuestOSType = [], ISOMD5 = ''ABCDEF0123'', ISOUrl = ''/tmp/foo.iso'',
       OutputDir = [], VMName = []\<rparr>, None) \<and>
   ISOMD5 (config (fst (Prepare test_env new_builder ok_spec))) = ''abcdef0123''"
  using Prepare_iso_md5_required [OF decode_empty_spec]
    Prepare_iso_md5_required [OF decode_ok_spec]
    decode_empty_spec decode_ok_spec ascii_lower_values(1)
  by (simp add: zero_config_def)

text \<open>
  C7. After \<^verbatim>\<open>Prepare\<close> on a spec that decodes, in the later revision and in the
  earlier one (\<^verbatim>\<open>builder.go\<close>), each of \<^verbatim>\<open>guest_os_type\<close>, \<^verbatim>\<open>output_directory\<close>
  and \<^verbatim>\<open>vm_name\<close> is its default (\<open>Other\<close>, \<open>virtualbox\<close>, \<open>packer\<close>) if the decoded
  value was empty and the decoded value otherwise; none of the three is empty.
\<close>

theorem Prepare_defaults:
  "(mapstructure_Decode env raw (config b) = (c, None) \<longrightarrow>
      GuestOSType (config (fst (Prepare env b raw))) =
        (if GuestOSType c = [] then ''Other'' else GuestOSType c) \<and>
      OutputDir (config (fst (Prepare env b raw))) =
        (if OutputDir c = [] then ''virtualbox'' else OutputDir c) \<and>
      VMName (config (fst (Prepare env b raw))) =
        (if VMName c = [] then ''packer'' else VMName c) \<and>
      GuestOSType (config (fst (Prepare env b raw))) \<noteq> [] \<and>
      OutputDir (config (fst (Prepare env b raw))) \<noteq> [] \<and>
      VMName (config (fst (Prepare env b raw))) \<noteq> []) \<and>
   (mapstructure_Decode env_go raw_go (config b_go) = (c_go, None) \<longrightarrow>
      GuestOSType0 (config (fst (Prepare_builder_go env_go b_go raw_go))) =
        (if GuestOSType0 c_go = [] then ''Other'' else GuestOSType0 c_go) \<and>
      OutputDir0 (config (fst (Prepare_builder_go env_go b_go raw_go))) =
        (if OutputDir0 c_go = [] then ''virtualbox'' else OutputDir0 c_go) \<and>
      VMName0 (config (fst (Prepare_builder_go env_go b_go raw_go))) =
        (if VMName0 c_go = [] then ''packer'' else VMName0 c_go) \<and>
      GuestOSType0 (config (fst (Prepare_builder_go env_go b_go raw_go))) \<noteq> [] \<and>
      OutputDir0 (config (fst (Prepare_builder_go env_go b_go raw_go))) \<noteq> [] \<and>
      VMName0 (config (fst (Prepare_builder_go env_go b_go raw_go))) \<noteq> [])"
proof -
  have "GuestOSType (config (fst (Prepare env b raw))) =
          (if GuestOSType c = [] then ''Other'' else GuestOSType c) \<and>
        OutputDir (config (fst (Prepare env b raw))) =
          (if OutputDir c = [] then ''virtualbox'' else OutputDir c) \<and>
        VMName (config (fst (Prepare env b raw))) =
          (if VMName c = [] then ''packer'' else VMName c) \<and>
        GuestOSType (config (fst (Prepare env b raw))) \<noteq> [] \<and>
        OutputDir (config (fst (Prepare env b raw))) \<noteq> [] \<and>
        VMName (config (fst (Prepare env b raw))) \<noteq> []"
    if d: "mapstructure_Decode env raw (config b) = (c, None)"
    by (simp add: Prepare_decoded [OF d] validated_fields)
  moreover have "GuestOSType0 (config (fst (Prepare_builder_go env_go b_go raw_go))) =
          (if GuestOSType0 c_go = [] then ''Other'' else GuestOSType0 c_go) \<and>
        OutputDir0 (config (fst (Prepare_builder_go env_go b_go raw_go))) =
          (if OutputDir0 c_go = [] then ''virtualbox'' else OutputDir0 c_go) \<and>
        VMName0 (config (fst (Prepare_builder_go env_go b_go raw_go))) =
          (if VMName0 c_go = [] then ''packer'' else VMName0 c_go) \<and>
        GuestOSType0 (config (fst (Prepare_builder_go env_go b_go raw_go))) \<noteq> [] \<and>
        OutputDir0 (config (fst (Prepare_builder_go env_go b_go raw_go))) \<noteq> [] \<and>
        VMName0 (config (fst (Prepare_builder_go env_go b_go raw_go))) \<noteq> []"
    if d_go: "mapstructure_Decode env_go raw_go (config b_go) = (c_go, None)"
    using d_go
    by (simp add: Prepare_builder_go_def apply_defaults_builder_go_def Let_def
          split: prod.splits)
  ultimately show ?thesis by blast
qed

theorem Prepare_defaults_witness:
  "mapstructure_Decode test_env ok_spec (config new_builder) =
     (\<lparr>GuestOSType = [], ISOMD5 = ''ABCDEF0123'', ISOUrl = ''/tmp/foo.iso'',
       OutputDir = [], VMName = []\<rparr>, None) \<and>
   GuestOSType (config (fst (Prepare test_env new_builder ok_spec))) = ''Other'' \<and>
   OutputDir (config (fst (Prepare test_env new_builder ok_spec))) = ''virtualbox'' \<and>
   VMName (config (fst (Prepare test_env new_builder ok_spec))) = ''packer'' \<and>
   mapstructure_Decode test_env_builder_go [] (config new_builder_builder_go) =
     (\<lparr>GuestOSType0 = [], OutputDir0 = [], VMName0 = []\<rparr>, None) \<and>
   GuestOSType0 (config (fst (Prepare_builder_go test_env_builder_go new_builder_builder_go [])))
     = ''Other'' \<and>
   OutputDir0 (config (fst (Prepare_builder_go test_env_builder_go new_builder_builder_go [])))
     = ''virtualbox'' \<and>
   VMName0 (config (fst (Prepare_builder_go test_env_builder_go new_builder_builder_go [])))
     = ''packer'' \<and>
   mapstructure_Decode test_env missing_spec (config new_builder) =
     (\<lparr>GuestOSType = ''Linux'', ISOMD5 = ''abc'', ISOUrl = ''/tmp/missing.iso'',
       OutputDir = ''out'', VMName = ''vm''\<rparr>, None) \<and>
   GuestOSType (config (fst (Prepare test_env new_builder missing_spec))) = ''Linux'' \<and>
   OutputDir (config (fst (Prepare test_env new_builder missing_spec))) = ''out'' \<and>
   VMName (config (fst (Prepare test_env new_builder missing_spec))) = ''vm'' \<and>
   mapstructure_Decode test_env_builder_go named_spec (config new_builder_builder_go) =
     (\<lparr>GuestOSType0 = ''Linux'', OutputDir0 = ''out'', VMName0 = ''vm''\<rparr>, None) \<and>
   GuestOSType0
     (config (fst (Prepare_builder_go test_env_builder_go new_builder_builder_go named_spec)))
     = ''Linux'' \<and>
   OutputDir0
     (config (fst (Prepare_builder_go test_env_builder_go new_builder_builder_go named_spec)))
     = ''out'' \<and>
   VMName0
     (config (fst (Prepare_builder_go test_env_builder_go new_builder_builder_go named_spec)))
     = ''vm''"
  using
    Prepare_defaults [where env = test_env and raw = ok_spec and b = new_builder
      and env_go = test_env_builder_go and raw_go = "[]" and b_go = new_builder_builder_go]
    Prepare_defaults [where env = test_env and raw = missing_spec and b = new_builder
      and env_go = test_env_builder_go and raw_go = named_spec
      and b_go = new_builder_builder_go]
    decode_ok_spec decode_missing_spec decode_empty_spec_builder_go
    decode_named_spec_builder_go
  by simp

text \<open>
  C9 fails as stated: the claim says the config after a failed \<^verbatim>\<open>Prepare\<close> differs
  from the raw input. With every field supplied and a lower-case checksum,
  \<^verbatim>\<open>Prepare\<close> fails on the missing file and the config is the decoded input.
\<close>

theorem Prepare_failure_unchanged_counterexample:
  "fst (snd (Prepare test_env new_builder missing_spec)) =
     Some (MultiError
       [''iso_url points to bad file: stat /tmp/missing.iso: no such file or directory'']) \<and>
   config (fst (Prepare test_env new_builder missing_spec)) =
     fst (mapstructure_Decode test_env missing_spec (config new_builder))"
  by (simp add: Prepare_missing_spec decode_missing_spec)

text \<open>
  C9, as amended. When \<^verbatim>\<open>Prepare\<close> returns an aggregate validation error, the stored
  config has the three defaults applied and a non-empty checksum replaced by its
  \<^verbatim>\<open>strings.ToLower\<close> all the same; it differs from the decoded input whenever one of
  the three fields was empty or the checksum was not already in lower case.
\<close>

theorem Prepare_failure_keeps_mutations:
  assumes "mapstructure_Decode env raw (config b) = (c, None)"
    and "fst (snd (Prepare env b raw)) = Some (MultiError errs)"
  shows "GuestOSType (config (fst (Prepare env b raw))) =
           (if GuestOSType c = [] then ''Other'' else GuestOSType c) \<and>
         OutputDir (config (fst (Prepare env b raw))) =
           (if OutputDir c = [] then ''virtualbox'' else OutputDir c) \<and>
         VMName (config (fst (Prepare env b raw))) =
           (if VMName c = [] then ''packer'' else VMName c) \<and>
         ISOMD5 (config (fst (Prepare env b raw))) =
           (if ISOMD5 c = [] then [] else strings_ToLower env (ISOMD5 c)) \<and>
         (GuestOSType c = [] \<or> OutputDir c = [] \<or> VMName c = [] \<or>
          (ISOMD5 c \<noteq> [] \<and> strings_ToLower env (ISOMD5 c) \<noteq> ISOMD5 c) \<longrightarrow>
            config (fst (Prepare env b raw)) \<noteq> c)"
proof -
  let ?c' = "config (fst (Prepare env b raw))"
  have f: "GuestOSType ?c' = (if GuestOSType c = [] then ''Other'' else GuestOSType c)"
    "OutputDir ?c' = (if OutputDir c = [] then ''virtualbox'' else OutputDir c)"
    "VMName ?c' = (if VMName c = [] then ''packer'' else VMName c)"
    "ISOMD5 ?c' = (if ISOMD5 c = [] then [] else strings_ToLower env (ISOMD5 c))"
    by (simp_all add: Prepare_decoded [OF assms(1)] validated_fields)
  have "?c' \<noteq> c"
    if "GuestOSType c = [] \<or> OutputDir c = [] \<or> VMName c = [] \<or>
        (ISOMD5 c \<noteq> [] \<and> strings_ToLower env (ISOMD5 c) \<noteq> ISOMD5 c)"
  proof
    assume "?c' = c"
    with f have "GuestOSType c \<noteq> []" "OutputDir c \<noteq> []" "VMName c \<noteq> []"
      "ISOMD5 c = [] \<or> strings_ToLower env (ISOMD5 c) = ISOMD5 c"
      by (auto split: if_splits)
    with that show False by blast
  qed
  with f show ?thesis by blast
qed

theorem Prepare_failure_keeps_mutations_witness:
  "mapstructure_Decode test_env [(''iso_md5'', ''ABCDEF0123'')] (config new_builder) =
     (\<lparr>GuestOSType = [], ISOMD5 = ''ABCDEF0123'', ISOUrl = [], OutputDir = [],
       VMName = []\<rparr>, None) \<and>
   fst (snd (Prepare test_env new_builder [(''iso_md5'', ''ABCDEF0123'')])) =
     Some (MultiError [''An iso_url must be specified.'']) \<and>
   config (fst (Prepare test_env new_builder [(''iso_md5'', ''ABCDEF0123'')])) =
     \<lparr>GuestOSType = ''Other'', ISOMD5 = ''abcdef0123'', ISOUrl = [],
      OutputDir = ''virtualbox'', VMName = ''packer''\<rparr> \<and>
   config (fst (Prepare test_env new_builder [(''iso_md5'', ''ABCDEF0123'')])) \<noteq>
     \<lparr>GuestOSType = [], ISOMD5 = ''ABCDEF0123'', ISOUrl = [], OutputDir = [], VMName = []\<rparr>"
proof -
  have d: "mapstructure_Decode test_env [(''iso_md5'', ''ABCDEF0123'')] (config new_builder) =
     (\<lparr>GuestOSType = [], ISOMD5 = ''ABCDEF0123'', ISOUrl = [], OutputDir = [],
       VMName = []\<rparr>, None)"
    by (simp add: test_env_def decode_strings_def field_or_def new_builder_def zero_config_def)
  have p: "Prepare test_env new_builder [(''iso_md5'', ''ABCDEF0123'')] =
     (\<lparr>config = \<lparr>GuestOSType = ''Other'', ISOMD5 = ''abcdef0123'', ISOUrl = [],
                  OutputDir = ''virtualbox'', VMName = ''packer''\<rparr>,
       driver = Some (VBox42Driver ''/usr/bin/VBoxManage''), runner = None\<rparr>,
      Some (MultiError [''An iso_url must be specified.'']),
      [EvLookPath ''VBoxManage'', EvLog ''VBoxManage path: /usr/bin/VBoxManage'',
       EvVerify (VBox42Driver ''/usr/bin/VBoxManage'')])"
    by (simp add: run_defs)
  have e: "fst (snd (Prepare test_env new_builder [(''iso_md5'', ''ABCDEF0123'')])) =
     Some (MultiError [''An iso_url must be specified.''])"
    by (simp add: p)
  from Prepare_failure_keeps_mutations [OF d e] d e
  show ?thesis by (simp add: p)
qed

text \<open>
  C10 fails as stated: the claim says an \<^verbatim>\<open>iso_url\<close> with scheme \<open>FILE\<close> passes
  validation with no existence check. \<^verbatim>\<open>url.Parse\<close> returns the scheme of
  \<open>FILE:///tmp/missing.iso\<close> as \<open>file\<close>, so \<^verbatim>\<open>Prepare\<close> calls \<^verbatim>\<open>os.Stat\<close> on the
  string and fails on the missing file.
\<close>

theorem Prepare_upper_scheme_counterexample:
  "url_Parse test_env ''FILE:///tmp/missing.iso'' = Inr (url_of ''file'' [] ''/tmp/missing.iso'') \<and>
   fst (snd (Prepare test_env new_builder upper_scheme_spec)) =
     Some (MultiError
       [''iso_url points to bad file: stat FILE:///tmp/missing.iso: no such file or directory'']) \<and>
   hd (snd (snd (Prepare test_env new_builder upper_scheme_spec))) =
     EvStat ''FILE:///tmp/missing.iso''"
  by (simp add: Prepare_upper_scheme_spec) (simp add: test_env_def parse_table_def)

text \<open>
  C10, as amended. On the URL that \<^verbatim>\<open>url.Parse\<close> returns: when its scheme lower-cases
  to \<open>file\<close>, \<open>http\<close> or \<open>https\<close>, \<^verbatim>\<open>Prepare\<close> never reports an unsupported scheme;
  \<^verbatim>\<open>os.Stat\<close> is called, on the \<^verbatim>\<open>iso_url\<close> as written, exactly when that scheme is
  empty or the lower-case string \<open>file\<close>; with any other scheme, a checksum and a
  working driver, \<^verbatim>\<open>Prepare\<close> succeeds and stores the re-serialized URL with no
  existence check; and when the parser returns the scheme already in lower case, a
  scheme that lower-cases to \<open>file\<close> does get the existence check.
\<close>

theorem Prepare_scheme_case:
  assumes "mapstructure_Decode env raw (config b) = (c, None)"
    and "ISOUrl c \<noteq> []"
    and "url_Parse env (ISOUrl c) = Inr url"
    and "strings_ToLower env (Scheme url) \<in> {''file'', ''http'', ''https''}"
  shows "(\<forall>errs s. fst (snd (Prepare env b raw)) = Some (MultiError errs) \<longrightarrow>
            ''Unsupported URL scheme in iso_url: '' @ s \<notin> set errs) \<and>
         (\<forall>p. EvStat p \<in> set (snd (snd (Prepare env b raw))) \<longleftrightarrow>
            p = ISOUrl c \<and> (Scheme url = [] \<or> Scheme url = ''file'')) \<and>
         (Scheme url \<noteq> [] \<and> Scheme url \<noteq> ''file'' \<and> ISOMD5 c \<noteq> [] \<and>
          snd (fst (newDriver env)) = None \<longrightarrow>
            fst (snd (Prepare env b raw)) = None \<and>
            ISOUrl (config (fst (Prepare env b raw))) = url_String env url) \<and>
         (strings_ToLower env (Scheme url) = Scheme url \<and>
          strings_ToLower env (Scheme url) = ''file'' \<longrightarrow>
            EvStat (ISOUrl c) \<in> set (snd (snd (Prepare env b raw))))"
proof -
  let ?errs0 = "snd (check_iso_md5 env (apply_defaults c) [])"
  have v: "snd (validated env c) =
             (if Scheme url = [] \<or> Scheme url = ''file''
              then (case os_Stat env (ISOUrl c) of
                      Some err \<Rightarrow> (?errs0 @ [''iso_url points to bad file: '' @ err],
                                   [EvStat (ISOUrl c)])
                    | None \<Rightarrow> (?errs0, [EvStat (ISOUrl c)]))
              else (?errs0, []))"
    using assms(4)
    by (auto simp add: validated_parsed [OF assms(2,3)] check_scheme_def Let_def
          split: option.splits)
  have u: "''Unsupported URL scheme in iso_url: '' @ s \<notin> set ?errs0" for s
    by (simp add: check_iso_md5_errs)
  have d: "''Unsupported URL scheme in iso_url: '' @ s \<notin> set (driver_errs env)" for s
    by (simp add: driver_errs_def split: option.splits)
  have 1: "\<forall>errs s. fst (snd (Prepare env b raw)) = Some (MultiError errs) \<longrightarrow>
            ''Unsupported URL scheme in iso_url: '' @ s \<notin> set errs"
    using u d
    by (auto simp add: Prepare_decoded [OF assms(1)] v split: if_splits option.splits)
  have 2: "\<forall>p. EvStat p \<in> set (snd (snd (Prepare env b raw))) \<longleftrightarrow>
            p = ISOUrl c \<and> (Scheme url = [] \<or> Scheme url = ''file'')"
    by (auto simp add: Prepare_decoded [OF assms(1)] v newDriver_no_stat split: option.splits)
  have 3: "fst (snd (Prepare env b raw)) = None \<and>
           ISOUrl (config (fst (Prepare env b raw))) = url_String env url"
    if "Scheme url \<noteq> []" "Scheme url \<noteq> ''file''" "ISOMD5 c \<noteq> []"
      "snd (fst (newDriver env)) = None"
  proof -
    have "validated env c =
            ((fst (check_iso_md5 env (apply_defaults c) []))\<lparr>ISOUrl := url_String env url\<rparr>,
             [], [])"
      using that(1,2,3) assms(2,3,4)
      by (auto simp add: validated_def check_iso_url_def check_iso_md5_fields
            apply_defaults_fields check_iso_md5_errs check_scheme_def Let_def)
    then show ?thesis
      by (simp add: Prepare_decoded [OF assms(1)] driver_errs_ok [OF that(4)])
  qed
  have 4: "EvStat (ISOUrl c) \<in> set (snd (snd (Prepare env b raw)))"
    if "strings_ToLower env (Scheme url) = Scheme url"
      "strings_ToLower env (Scheme url) = ''file''"
    using that 2 by simp
  from 1 2 3 4 show ?thesis by blast
qed

theorem Prepare_scheme_case_witness:
  "mapstructure_Decode test_env https_spec (config new_builder) =
     (\<lparr>GuestOSType = [], ISOMD5 = ''ABCDEF0123'', ISOUrl = ''https://example.com/os.iso'',
       OutputDir = [], VMName = []\<rparr>, None) \<and>
   url_Parse test_env ''https://example.com/os.iso'' =
     Inr (url_of ''https'' ''example.com'' ''/os.iso'') \<and>
   strings_ToLower test_env ''https'' = ''https'' \<and>
   snd (fst (newDriver test_env)) = None \<and>
   fst (snd (Prepare test_env new_builder https_spec)) = None \<and>
   ISOUrl (config (fst (Prepare test_env new_builder https_spec))) =
     ''https://example.com/os.iso'' \<and>
   (\<forall>p. EvStat p \<notin> set (snd (snd (Prepare test_env new_builder https_spec)))) \<and>
   mapstructure_Decode test_env upper_scheme_spec (config new_builder) =
     (\<lparr>GuestOSType = [], ISOMD5 = ''ABCDEF0123'', ISOUrl = ''FILE:///tmp/missing.iso'',
       OutputDir = [], VMName = []\<rparr>, None) \<and>
   url_Parse test_env ''FILE:///tmp/missing.iso'' =
     Inr (url_of ''file'' [] ''/tmp/missing.iso'') \<and>
   strings_ToLower test_env ''file'' = ''file'' \<and>
   EvStat ''FILE:///tmp/missing.iso'' \<in>
     set (snd (snd (Prepare test_env new_builder upper_scheme_spec))) \<and>
   fst (snd (Prepare test_env new_builder upper_scheme_spec)) =
     Some (MultiError
       [''iso_url points to bad file: stat FILE:///tmp/missing.iso: no such file or directory''])"
proof -
  have p: "url_Parse test_env ''https://example.com/os.iso'' =
             Inr (url_of ''https'' ''example.com'' ''/os.iso'')"
    "url_Parse test_env ''FILE:///tmp/missing.iso'' =
             Inr (url_of ''file'' [] ''/tmp/missing.iso'')"
    by (simp_all add: test_env_def parse_table_def)
  have n: "snd (fst (newDriver test_env)) = None"
    by (simp add: newDriver_def test_env_def look_path_def Let_def)
  have s: "url_String test_env (url_of ''https'' ''example.com'' ''/os.iso'') =
             ''https://example.com/os.iso''"
    by (simp add: test_env_def string_of_url_def url_of_def)
  have a: "Scheme (url_of ''https'' ''example.com'' ''/os.iso'') = ''https''"
    "Scheme (url_of ''file'' [] ''/tmp/missing.iso'') = ''file''"
    by (simp_all add: url_of_def)
  from Prepare_scheme_case [where env = test_env and b = new_builder
      and raw = https_spec and url = "url_of ''https'' ''example.com'' ''/os.iso''",
      OF decode_https_spec]
    Prepare_scheme_case [where env = test_env and b = new_builder
      and raw = upper_scheme_spec and url = "url_of ''file'' [] ''/tmp/missing.iso''",
      OF decode_upper_scheme_spec]
    decode_https_spec decode_upper_scheme_spec p n s a ascii_lower_values
  show ?thesis by (simp add: Prepare_upper_scheme_spec)
qed

end
